theory Spec2Isabelle
  imports Main "HOL-Library.Char_ord" "HOL-Library.List_Lexorder"
begin

section \<open>Strings and the library functions the script calls\<close>

text \<open>
  The script \<^verbatim>\<open>scripts/generate-spec-txt.ts\<close> works on JavaScript strings. A string is
  modelled as a \<^typ>\<open>string\<close>, one \<^typ>\<open>char\<close> per code unit, for the code units below 256
  (ASCII and Latin-1). The library functions of \<^verbatim>\<open>String.prototype\<close> and of Node's
  \<^verbatim>\<open>path\<close> module (POSIX flavour) that the script calls are written out below.
\<close>

abbreviation NL :: char where
  "NL \<equiv> CHR 0x0A"

definition isWhiteSpace :: "char \<Rightarrow> bool" where
  \<comment> \<open>WhiteSpace and LineTerminator of ECMAScript below code unit 256:
      TAB, LF, VT, FF, CR, SP and NBSP. It is what \<^verbatim>\<open>trim\<close> removes.\<close>
  "isWhiteSpace c = (c \<in> set [CHR 0x09, CHR 0x0A, CHR 0x0B, CHR 0x0C, CHR 0x0D, CHR 0x20, CHR 0xA0])"

definition trim :: "string \<Rightarrow> string" where
  \<comment> \<open>\<^verbatim>\<open>s.trim()\<close>\<close>
  "trim s = rev (dropWhile isWhiteSpace (rev (dropWhile isWhiteSpace s)))"

definition startsWith :: "string \<Rightarrow> string \<Rightarrow> bool" where
  \<comment> \<open>\<^verbatim>\<open>s.startsWith(pat)\<close>\<close>
  "startsWith s pat = (take (length pat) s = pat)"

fun includes_str :: "string \<Rightarrow> string \<Rightarrow> bool" where
  \<comment> \<open>\<^verbatim>\<open>s.includes(pat)\<close>\<close>
  "includes_str [] pat = (pat = [])"
| "includes_str (c # cs) pat = (startsWith (c # cs) pat \<or> includes_str cs pat)"

fun replaceFirst :: "string \<Rightarrow> string \<Rightarrow> string" where
  \<comment> \<open>\<^verbatim>\<open>s.replace(pat, '')\<close> with a string pattern: the first occurrence goes.\<close>
  "replaceFirst [] pat = []"
| "replaceFirst (c # cs) pat =
     (if startsWith (c # cs) pat then drop (length pat) (c # cs)
      else c # replaceFirst cs pat)"

definition toLowerCase :: "string \<Rightarrow> string" where
  \<comment> \<open>\<^verbatim>\<open>s.toLowerCase()\<close> on code units below 256: A-Z, and the Latin-1 capitals
      0xC0-0xDE but the multiplication sign 0xD7, move up by 32.\<close>
  "toLowerCase s =
     map (\<lambda>c. let n = (of_char c :: nat) in
               if (65 \<le> n \<and> n \<le> 90) \<or> (192 \<le> n \<and> n \<le> 222 \<and> n \<noteq> 215)
               then char_of (n + 32) else c) s"

definition isDigit :: "char \<Rightarrow> bool" where
  \<comment> \<open>the regular expression class \<^verbatim>\<open>\d\<close>\<close>
  "isDigit c = (c \<in> set ''0123456789'')"

definition dateAt :: "string \<Rightarrow> bool" where
  \<comment> \<open>\<^verbatim>\<open>\d{4}-\d{2}-\d{2}\<close> matches at the start of the string\<close>
  "dateAt s =
     (case s of
        y1 # y2 # y3 # y4 # d1 # m1 # m2 # d2 # t1 # t2 # _ \<Rightarrow>
          isDigit y1 \<and> isDigit y2 \<and> isDigit y3 \<and> isDigit y4 \<and> d1 = CHR ''-'' \<and>
          isDigit m1 \<and> isDigit m2 \<and> d2 = CHR ''-'' \<and> isDigit t1 \<and> isDigit t2
      | _ \<Rightarrow> False)"

fun matchDate :: "string \<Rightarrow> string option" where
  \<comment> \<open>\<^verbatim>\<open>s.match(/(\d{4}-\d{2}-\d{2})/)\<close>: group 1 of the leftmost match, or null\<close>
  "matchDate [] = None"
| "matchDate (c # cs) = (if dateAt (c # cs) then Some (take 10 (c # cs)) else matchDate cs)"

fun joinWith :: "string \<Rightarrow> string list \<Rightarrow> string" where
  \<comment> \<open>\<^verbatim>\<open>xs.join(sep)\<close>\<close>
  "joinWith sep [] = []"
| "joinWith sep [x] = x"
| "joinWith sep (x # y # ys) = x @ sep @ joinWith sep (y # ys)"

fun splitOn :: "char \<Rightarrow> string \<Rightarrow> string list" where
  \<comment> \<open>the segments of a string between the occurrences of a separator\<close>
  "splitOn d [] = [[]]"
| "splitOn d (c # cs) =
     (case splitOn d cs of
        [] \<Rightarrow> (if c = d then [[], []] else [[c]])
      | seg # segs \<Rightarrow> (if c = d then [] # seg # segs else (c # seg) # segs))"

fun normalizeSegments :: "bool \<Rightarrow> string list \<Rightarrow> string list \<Rightarrow> string list" where
  \<comment> \<open>\<^verbatim>\<open>normalizeString\<close> of Node's \<^verbatim>\<open>path\<close>: empty and \<^verbatim>\<open>.\<close> segments go, \<^verbatim>\<open>..\<close>
      removes the segment before it, or stays when nothing is left to remove and the path
      is relative. The third argument is the result so far, last segment first.\<close>
  "normalizeSegments allowAboveRoot [] res = rev res"
| "normalizeSegments allowAboveRoot (seg # segs) res =
     (if seg = [] \<or> seg = ''.'' then normalizeSegments allowAboveRoot segs res
      else if seg = ''..'' then
        (case res of
           [] \<Rightarrow> normalizeSegments allowAboveRoot segs (if allowAboveRoot then [''..''] else [])
         | r # rs \<Rightarrow>
             if r = ''..''
             then normalizeSegments allowAboveRoot segs (if allowAboveRoot then ''..'' # r # rs else r # rs)
             else normalizeSegments allowAboveRoot segs rs)
      else normalizeSegments allowAboveRoot segs (seg # res))"

definition path_normalize :: "string \<Rightarrow> string" where
  \<comment> \<open>\<^verbatim>\<open>path.posix.normalize\<close>\<close>
  "path_normalize p =
     (if p = [] then ''.''
      else
        let isAbsolute = (hd p = CHR ''/'');
            trailingSeparator = (last p = CHR ''/'');
            res = joinWith ''/'' (normalizeSegments (\<not> isAbsolute) (splitOn (CHR ''/'') p) [])
        in if res = [] then (if isAbsolute then ''/'' else if trailingSeparator then ''./'' else ''.'')
           else (if isAbsolute then ''/'' else []) @ res @ (if trailingSeparator then ''/'' else []))"

definition path_join :: "string \<Rightarrow> string \<Rightarrow> string" where
  \<comment> \<open>\<^verbatim>\<open>path.posix.join(a, b)\<close>: the non-empty arguments, joined by a slash, normalised\<close>
  "path_join a b =
     (let joined = joinWith ''/'' (filter (\<lambda>arg. arg \<noteq> []) [a, b])
      in if joined = [] then ''.'' else path_normalize joined)"

section \<open>The navigation configuration\<close>

text \<open>
  \<^verbatim>\<open>pages: (string | NavigationItem)[]\<close>: an entry is a page reference or a nested item
  with an optional label and its own entries.
\<close>

datatype NavigationItem =
    Page string
  | Item "string option" "NavigationItem list"

record Group =
  group :: string
  pages :: "NavigationItem list"

record Tab =
  tab :: string
  icon :: "string option"
  groups :: "Group list"

record Navigation =
  tabs :: "Tab list"

record DocsConfig =
  navigation :: Navigation

section \<open>Flattening the page tree\<close>

definition fullPath :: "string \<Rightarrow> string \<Rightarrow> string" where
  \<comment> \<open>the \<^verbatim>\<open>fullPath\<close> of a page reference in \<^verbatim>\<open>extractPagePaths\<close>\<close>
  "fullPath basePath item =
     (if startsWith item ''/'' then ''../docs/specification'' @ drop 1 item
      else ''../docs/'' @ path_join basePath item)"

fun extractPagePaths :: "NavigationItem list \<Rightarrow> string \<Rightarrow> string list" where
  "extractPagePaths [] basePath = []"
| "extractPagePaths (Page item # items) basePath =
     fullPath basePath item # extractPagePaths items basePath"
| "extractPagePaths (Item label ps # items) basePath =
     extractPagePaths ps basePath @ extractPagePaths items basePath"

text \<open>
  The depth-first pre-order sequence of the page references of a tree, by recursion on
  the tree: a page is its own sequence, an item contributes those of its entries, one
  after the other.
\<close>

primrec leafPages :: "NavigationItem \<Rightarrow> string list" where
  "leafPages (Page item) = [item]"
| "leafPages (Item label ps) = concat (map leafPages ps)"

section \<open>Cleaning a document\<close>

fun afterDashes :: "string \<Rightarrow> string option" where
  \<comment> \<open>what follows the first \<^verbatim>\<open>---\<close> of a string, if there is one\<close>
  "afterDashes [] = None"
| "afterDashes (c # cs) =
     (if startsWith (c # cs) ''---'' then Some (drop 3 (c # cs)) else afterDashes cs)"

definition frontmatterMatch :: "string \<Rightarrow> string option" where
  \<comment> \<open>\<^verbatim>\<open>/^---[\s\S]*?---\n*/\<close>: what is left of the content after the match, or
      \<open>None\<close> when the expression does not match. The match starts at offset zero with
      three dashes, runs to the nearest later three dashes (the quantifier is lazy) and
      takes every line feed that follows them.\<close>
  "frontmatterMatch content =
     (if startsWith content ''---''
      then map_option (dropWhile (\<lambda>c. c = NL)) (afterDashes (drop 3 content))
      else None)"

definition cleanMdxContent :: "string \<Rightarrow> string" where
  "cleanMdxContent content =
     (let cleanContent = (case frontmatterMatch content of None \<Rightarrow> content | Some rest \<Rightarrow> rest)
      in trim cleanContent)"

section \<open>Selecting the version\<close>

datatype error =
    SpecTabNotFound         \<comment> \<open>\<^verbatim>\<open>Specification tab not found in docs.json\<close>\<close>
  | NoVersionedGroups       \<comment> \<open>\<^verbatim>\<open>No versioned specification groups found\<close>\<close>
  | LatestGroupNotFound     \<comment> \<open>\<^verbatim>\<open>Latest specification group not found\<close>\<close>
  | ReadFailed string       \<comment> \<open>\<^verbatim>\<open>fs.readFile\<close> of the path threw\<close>
  | ParseFailed             \<comment> \<open>\<^verbatim>\<open>JSON.parse\<close> threw\<close>
  | WriteFailed string      \<comment> \<open>\<^verbatim>\<open>fs.writeFile\<close> to the path threw\<close>

definition findSpecTab :: "DocsConfig \<Rightarrow> Tab option" where
  \<comment> \<open>\<^verbatim>\<open>docsConfig.navigation.tabs.find(tab => tab.tab.toLowerCase() === 'specification')\<close>\<close>
  "findSpecTab docsConfig =
     find (\<lambda>t. toLowerCase (tab t) = ''specification'') (tabs (navigation docsConfig))"

definition isMarked :: "Group \<Rightarrow> bool" where
  \<comment> \<open>\<^verbatim>\<open>group.group.includes('Latest') || group.group.includes('2025-03-26')\<close>\<close>
  "isMarked g = (includes_str (group g) ''Latest'' \<or> includes_str (group g) ''2025-03-26'')"

fun markedDate :: "Group list \<Rightarrow> string option" where
  \<comment> \<open>the first loop of \<^verbatim>\<open>findLatestSpecVersion\<close>: the date of the first marked group
      that has one\<close>
  "markedDate [] = None"
| "markedDate (g # gs) =
     (if isMarked g
      then (case matchDate (group g) of Some d \<Rightarrow> Some d | None \<Rightarrow> markedDate gs)
      else markedDate gs)"

definition findLatestSpecVersion :: "DocsConfig \<Rightarrow> error + string" where
  "findLatestSpecVersion docsConfig =
     (case findSpecTab docsConfig of
        None \<Rightarrow> Inl SpecTabNotFound
      | Some specTab \<Rightarrow>
          (case markedDate (groups specTab) of
             Some d \<Rightarrow> Inr d
           | None \<Rightarrow>
               let dateGroups =
                     rev (sort (List.map_filter (\<lambda>g. matchDate (group g)) (groups specTab)))
               in (case dateGroups of
                     d # _ \<Rightarrow> Inr d
                   | [] \<Rightarrow> Inl NoVersionedGroups)))"

definition getLatestSpecNavigation :: "DocsConfig \<Rightarrow> error + NavigationItem list" where
  "getLatestSpecNavigation docsConfig =
     (case findSpecTab docsConfig of
        None \<Rightarrow> Inl SpecTabNotFound
      | Some specTab \<Rightarrow>
          (case find isMarked (groups specTab) of
             None \<Rightarrow> Inl LatestGroupNotFound
           | Some latestGroup \<Rightarrow> Inr (pages latestGroup)))"

section \<open>The file system and the console\<close>

text \<open>
  The script reads with \<^verbatim>\<open>fs.readFile(path, 'utf-8')\<close>, which returns the content or
  throws, and writes with \<^verbatim>\<open>fs.writeFile\<close>, which returns or throws. The file
  system is what these calls answer on each path. A path that names no file answers
  \<open>Failure ENOENT\<close>; a file that is there and cannot be read answers another error.
\<close>

datatype fs_error = ENOENT | EACCES | EISDIR

datatype read_result = Content string | Failure fs_error

record world =
  readFile :: "string \<Rightarrow> read_result"
  writeFile :: "string \<Rightarrow> bool"

definition fileExists :: "world \<Rightarrow> string \<Rightarrow> bool" where
  "fileExists w p = (readFile w p \<noteq> Failure ENOENT)"

fun readable :: "read_result \<Rightarrow> bool" where
  "readable (Content c) = True"
| "readable (Failure e) = False"

text \<open>
  A console message is the template of one console call of the script with the values it
  interpolates; the call says which of \<^verbatim>\<open>console.log\<close>, \<^verbatim>\<open>console.warn\<close> and
  \<^verbatim>\<open>console.error\<close> printed it.
\<close>

datatype message =
    UsingVersion string             \<comment> \<open>\<^verbatim>\<open>Using specification version: ${latestVersion}\<close>\<close>
  | FoundNavigation nat             \<comment> \<open>\<^verbatim>\<open>Found specification navigation with ${n} top-level items\<close>\<close>
  | FoundPages nat                  \<comment> \<open>\<^verbatim>\<open>Found ${n} specification pages\<close>\<close>
  | Processed string                \<comment> \<open>\<^verbatim>\<open>Processed: ${usedPath}\<close>\<close>
  | CouldNotFindFile string         \<comment> \<open>\<^verbatim>\<open>Could not find file for: ${pagePath}\<close>\<close>
  | FoundSchema string string       \<comment> \<open>\<^verbatim>\<open>Found ${file} for version ${version}\<close>\<close>
  | CouldNotFindSchema string string \<comment> \<open>\<^verbatim>\<open>Could not find ${file} for version ${version}\<close>\<close>
  | Concatenated nat                \<comment> \<open>\<^verbatim>\<open>Successfully concatenated ${processedCount} files\<close>\<close>
  | BasicWritten string             \<comment> \<open>\<^verbatim>\<open>Basic spec written to: ${baseOutputPath}\<close>\<close>
  | BasicSize nat                   \<comment> \<open>\<^verbatim>\<open>Basic spec size: ${n} characters\<close>\<close>
  | FullWritten string              \<comment> \<open>\<^verbatim>\<open>Full spec written to: ${fullOutputPath}\<close>\<close>
  | FullSize nat                    \<comment> \<open>\<^verbatim>\<open>Full spec size: ${n} characters\<close>\<close>
  | ErrorMessage error              \<comment> \<open>\<^verbatim>\<open>Error:\<close> and the message of the error caught\<close>

datatype console_call = ConsoleLog message | ConsoleWarn message | ConsoleError message


section \<open>Reading and concatenating the pages\<close>

definition possiblePaths :: "string \<Rightarrow> string list" where
  "possiblePaths pagePath = [pagePath @ ''.mdx'', pagePath @ ''.md'', pagePath]"

fun readFirst :: "world \<Rightarrow> string list \<Rightarrow> (string \<times> string) option" where
  \<comment> \<open>the loop over \<^verbatim>\<open>possiblePaths\<close>: \<^verbatim>\<open>content\<close> and \<^verbatim>\<open>usedPath\<close> of the first
      read that does not throw; \<open>None\<close> when both are still \<^verbatim>\<open>null\<close> after the loop\<close>
  "readFirst w [] = None"
| "readFirst w (possiblePath # rest) =
     (case readFile w possiblePath of
        Content content \<Rightarrow> Some (content, possiblePath)
      | Failure e \<Rightarrow> readFirst w rest)"

record progress =
  concatenatedContent :: "string list"
  processedCount :: nat
  console :: "console_call list"

definition pageSection :: "string \<Rightarrow> string \<Rightarrow> string \<Rightarrow> string" where
  \<comment> \<open>the section pushed for a page: the title line, an empty line, the clean content\<close>
  "pageSection latestVersion pagePath cleanContent =
     (let pageTitle = replaceFirst pagePath (''specification/'' @ latestVersion @ ''/'')
      in ''# '' @ pageTitle @ [NL, NL] @ cleanContent)"

definition processPage :: "world \<Rightarrow> string \<Rightarrow> progress \<Rightarrow> string \<Rightarrow> progress" where
  \<comment> \<open>one turn of the loop over \<^verbatim>\<open>pagePaths\<close>; a string is truthy when it is not empty\<close>
  "processPage w latestVersion st pagePath =
     (case readFirst w (possiblePaths pagePath) of
        Some (content, usedPath) \<Rightarrow>
          if content \<noteq> [] \<and> usedPath \<noteq> [] then
            (let cleanContent = cleanMdxContent content in
             if cleanContent \<noteq> [] then
               st\<lparr>concatenatedContent :=
                    concatenatedContent st @ [pageSection latestVersion pagePath cleanContent],
                  processedCount := processedCount st + 1,
                  console := console st @ [ConsoleLog (Processed usedPath)]\<rparr>
             else st)
          else st\<lparr>console := console st @ [ConsoleWarn (CouldNotFindFile pagePath)]\<rparr>
      | None \<Rightarrow> st\<lparr>console := console st @ [ConsoleWarn (CouldNotFindFile pagePath)]\<rparr>)"

fun processPages :: "world \<Rightarrow> string \<Rightarrow> string list \<Rightarrow> progress \<Rightarrow> progress" where
  "processPages w latestVersion [] st = st"
| "processPages w latestVersion (pagePath # rest) st =
     processPages w latestVersion rest (processPage w latestVersion st pagePath)"

section \<open>The schema files and the run\<close>

definition readSchemaFile :: "world \<Rightarrow> string \<Rightarrow> string \<Rightarrow> string option \<times> console_call list" where
  \<comment> \<open>one \<^verbatim>\<open>try\<close> block of \<^verbatim>\<open>readSchemaFiles\<close>\<close>
  "readSchemaFile w version file =
     (case readFile w (path_join (''../schema/'' @ version) file) of
        Content c \<Rightarrow> (Some c, [ConsoleLog (FoundSchema file version)])
      | Failure e \<Rightarrow> (None, [ConsoleWarn (CouldNotFindSchema file version)]))"

definition readSchemaFiles ::
  "world \<Rightarrow> string \<Rightarrow> (string option \<times> string option) \<times> console_call list" where
  "readSchemaFiles w version =
     (let (ts, out1) = readSchemaFile w version ''schema.ts'';
          (json, out2) = readSchemaFile w version ''schema.json''
      in ((ts, json), out1 @ out2))"

record run_result =
  exitCode :: nat
  printed :: "console_call list"
  written :: "(string \<times> string) list"

definition abort :: "console_call list \<Rightarrow> (string \<times> string) list \<Rightarrow> error \<Rightarrow> run_result" where
  \<comment> \<open>the \<^verbatim>\<open>catch\<close> of \<^verbatim>\<open>concatenateSpec\<close>: print the error, \<^verbatim>\<open>process.exit(1)\<close>\<close>
  "abort out files e =
     \<lparr>exitCode = 1, printed = out @ [ConsoleError (ErrorMessage e)], written = files\<rparr>"

definition separator :: string where
  "separator = [NL, NL] @ ''---'' @ [NL, NL]"

definition fence :: "string \<Rightarrow> string \<Rightarrow> string option \<Rightarrow> string list" where
  \<comment> \<open>the fenced section of a schema file, when the file was read and is not empty\<close>
  "fence title lang text =
     (case text of
        None \<Rightarrow> []
      | Some t \<Rightarrow>
          if t \<noteq> [] then [''# '' @ title @ [NL, NL] @ ''```'' @ lang @ [NL] @ t @ [NL] @ ''```'']
          else [])"

definition concatenateConfig :: "DocsConfig \<Rightarrow> world \<Rightarrow> bool \<Rightarrow> run_result" where
  \<comment> \<open>\<^verbatim>\<open>concatenateSpec\<close> from the parsed configuration on\<close>
  "concatenateConfig docsConfig w includeFull =
     (case findLatestSpecVersion docsConfig of
        Inl e \<Rightarrow> abort [] [] e
      | Inr latestVersion \<Rightarrow>
     (case getLatestSpecNavigation docsConfig of
        Inl e \<Rightarrow> abort [] [] e
      | Inr specNavigation \<Rightarrow>
          let pagePaths = extractPagePaths specNavigation [];
              st = processPages w latestVersion pagePaths
                     \<lparr>concatenatedContent = [], processedCount = 0,
                      console = [ConsoleLog (UsingVersion latestVersion),
                                 ConsoleLog (FoundNavigation (length specNavigation)),
                                 ConsoleLog (FoundPages (length pagePaths))]\<rparr>;
              baseContent = joinWith separator (concatenatedContent st);
              baseOutputPath = ''./mcp-spec.txt''
          in if writeFile w baseOutputPath then
               (let out = console st @
                          [ConsoleLog (Concatenated (processedCount st)),
                           ConsoleLog (BasicWritten baseOutputPath),
                           ConsoleLog (BasicSize (length baseContent))];
                    files = [(baseOutputPath, baseContent)]
                in if includeFull then
                     (let ((ts, json), schemaOut) = readSchemaFiles w latestVersion;
                          fullContent = [baseContent] @ fence ''schema.ts'' ''typescript'' ts
                                          @ fence ''schema.json'' ''json'' json;
                          fullOutputContent = joinWith separator fullContent;
                          fullOutputPath = ''./mcp-spec-full.txt''
                      in if writeFile w fullOutputPath then
                           \<lparr>exitCode = 0,
                            printed = out @ schemaOut @
                                      [ConsoleLog (FullWritten fullOutputPath),
                                       ConsoleLog (FullSize (length fullOutputContent))],
                            written = files @ [(fullOutputPath, fullOutputContent)]\<rparr>
                         else abort (out @ schemaOut) files (WriteFailed fullOutputPath))
                   else \<lparr>exitCode = 0, printed = out, written = files\<rparr>)
             else abort (console st) [] (WriteFailed baseOutputPath)))"

definition concatenateSpec :: "(string \<Rightarrow> DocsConfig option) \<Rightarrow> world \<Rightarrow> bool \<Rightarrow> run_result" where
  \<comment> \<open>the first argument is \<^verbatim>\<open>JSON.parse\<close> into a \<^verbatim>\<open>DocsConfig\<close>, \<open>None\<close> where it throws\<close>
  "concatenateSpec parseJSON w includeFull =
     (let docsJsonPath = ''../docs/docs.json'' in
      case readFile w docsJsonPath of
        Failure e \<Rightarrow> abort [] [] (ReadFailed docsJsonPath)
      | Content docsContent \<Rightarrow>
          (case parseJSON docsContent of
             None \<Rightarrow> abort [] [] ParseFailed
           | Some docsConfig \<Rightarrow> concatenateConfig docsConfig w includeFull))"

definition primaryArtifact :: "run_result \<Rightarrow> string option" where
  \<comment> \<open>what the run wrote to \<^verbatim>\<open>./mcp-spec.txt\<close>\<close>
  "primaryArtifact r = map_of (written r) ''./mcp-spec.txt''"

section \<open>What the run is compared with\<close>

text \<open>
  The section a page contributes to the output, as a function of the page alone: the
  content of its first candidate that can be read, cleaned, under its title; nothing when
  no candidate can be read or nothing is left to print.
\<close>

definition sectionOf :: "world \<Rightarrow> string \<Rightarrow> string \<Rightarrow> string option" where
  "sectionOf w latestVersion pagePath =
     (case readFirst w (possiblePaths pagePath) of
        None \<Rightarrow> None
      | Some (content, usedPath) \<Rightarrow>
          if content \<noteq> [] \<and> usedPath \<noteq> [] \<and> cleanMdxContent content \<noteq> []
          then Some (pageSection latestVersion pagePath (cleanMdxContent content))
          else None)"

text \<open>The state of the loop over the pages before its first turn.\<close>

definition start :: "string \<Rightarrow> NavigationItem list \<Rightarrow> progress" where
  "start v nav =
     \<lparr>concatenatedContent = [], processedCount = 0,
      console = [ConsoleLog (UsingVersion v), ConsoleLog (FoundNavigation (length nav)),
                 ConsoleLog (FoundPages (length (extractPagePaths nav [])))]\<rparr>"

fun contentOf :: "read_result \<Rightarrow> string" where
  "contentOf (Content c) = c"
| "contentOf (Failure e) = []"



text \<open>
  Inputs of the examples: a configuration with one tab \<^verbatim>\<open>Specification\<close> whose groups
  are given; the one with the single group \<^verbatim>\<open>2025-06-18 (Latest)\<close>; a document with a
  frontmatter block and a body; a file system given by the answers of the paths listed
  (every other path names no file) where every write succeeds; a parser that reads one
  text as one configuration.
\<close>

definition specConfig :: "Group list \<Rightarrow> DocsConfig" where
  "specConfig gs =
     \<lparr>navigation = \<lparr>tabs = [\<lparr>tab = ''Specification'', icon = None, groups = gs\<rparr>]\<rparr>\<rparr>"

definition latestConfig :: "NavigationItem list \<Rightarrow> DocsConfig" where
  "latestConfig ps = specConfig [\<lparr>group = ''2025-06-18 (Latest)'', pages = ps\<rparr>]"

definition draftFirstConfig :: DocsConfig where
  "draftFirstConfig =
     specConfig [\<lparr>group = ''Latest draft'', pages = [Page ''specification/draft/index'']\<rparr>,
                 \<lparr>group = ''2025-06-18'', pages = [Page ''specification/2025-06-18/index'']\<rparr>]"

definition datedConfig :: DocsConfig where
  "datedConfig =
     specConfig [\<lparr>group = ''2024-11-05'', pages = [Page ''specification/2024-11-05/index'']\<rparr>,
                 \<lparr>group = ''2025-06-18'', pages = [Page ''specification/2025-06-18/index'']\<rparr>]"

definition document :: "string \<Rightarrow> string \<Rightarrow> string" where
  "document title body = ''---'' @ ([NL] @ ''title: '' @ title @ [NL]) @ ''---'' @ [NL, NL] @ body"

definition onDisk :: "(string \<times> read_result) list \<Rightarrow> world" where
  "onDisk files =
     \<lparr>readFile = (\<lambda>p. case map_of files p of Some r \<Rightarrow> r | None \<Rightarrow> Failure ENOENT),
      writeFile = (\<lambda>p. True)\<rparr>"

definition twoFiles :: "string \<Rightarrow> string \<Rightarrow> world" where
  \<comment> \<open>each document ends with a line feed, as a text file does\<close>
  "twoFiles path1 path2 =
     onDisk [(path1, Content (document ''Lifecycle'' (''Lifecycle body.'' @ [NL]))),
             (path2, Content (document ''Tools'' (''Tools body.'' @ [NL])))]"

definition parsesTo :: "string \<Rightarrow> DocsConfig \<Rightarrow> string \<Rightarrow> DocsConfig option" where
  "parsesTo text docsConfig = (\<lambda>s. if s = text then Some docsConfig else None)"

section \<open>The flattener\<close>

lemma extractPagePaths_append:
  "extractPagePaths (xs @ ys) basePath
     = extractPagePaths xs basePath @ extractPagePaths ys basePath"
  by (induction xs basePath rule: extractPagePaths.induct) simp_all

lemma extractPagePaths_leafPages:
  "extractPagePaths items basePath = map (fullPath basePath) (concat (map leafPages items))"
  by (induction items basePath rule: extractPagePaths.induct) simp_all

lemma fullPath_nonempty: "fullPath basePath item \<noteq> []"
  by (simp add: fullPath_def)

text \<open>
  C7. \<^const>\<open>extractPagePaths\<close> is a total function of the page tree and the base path
  (it is defined by terminating recursion and has no error result). On every tree, however
  deeply nested, it returns the logical paths of the page references in depth-first
  pre-order; the empty tree gives the empty sequence; the pages of a nested item come out
  together, in their own order, between those of the entries before the item and those
  of the entries after it.
\<close>

theorem extractPagePaths_preorder:
  "extractPagePaths items basePath = map (fullPath basePath) (concat (map leafPages items))
   \<and> extractPagePaths [] basePath = []
   \<and> extractPagePaths (before @ Item label ps # after) basePath
       = extractPagePaths before basePath @ extractPagePaths ps basePath
         @ extractPagePaths after basePath
   \<and> extractPagePaths (before @ Page item # after) basePath
       = extractPagePaths before basePath @ fullPath basePath item
         # extractPagePaths after basePath"
  by (simp add: extractPagePaths_append extractPagePaths_leafPages)

theorem extractPagePaths_preorder_witness:
  "extractPagePaths
     [Page ''a'', Item (Some ''g'') [Page ''b'', Item None [Page ''c''], Page ''d''], Page ''e''] []
     = [''../docs/a'', ''../docs/b'', ''../docs/c'', ''../docs/d'', ''../docs/e'']"
  using extractPagePaths_preorder
    [of "[Page ''a'', Item (Some ''g'') [Page ''b'', Item None [Page ''c''], Page ''d''], Page ''e'']" "[]"]
  by (simp add: fullPath_def startsWith_def path_join_def path_normalize_def)

text \<open>
  C1. A page reference that starts with \<^verbatim>\<open>/\<close> should come out as the specification
  directory, a separator, and the rest of the reference. The script drops the slash and
  appends the rest to \<^verbatim>\<open>../docs/specification\<close> with nothing in between: for
  \<^verbatim>\<open>/basic/lifecycle\<close> it returns \<^verbatim>\<open>../docs/specificationbasic/lifecycle\<close>, not
  \<^verbatim>\<open>../docs/specification/basic/lifecycle\<close>.
\<close>

theorem root_reference_loses_separator:
  "extractPagePaths [Page ''/basic/lifecycle''] []
     = [''../docs/specificationbasic/lifecycle'']
   \<and> extractPagePaths [Page ''/basic/lifecycle''] []
     \<noteq> [''../docs/specification/basic/lifecycle'']"
  by (simp add: fullPath_def startsWith_def)

section \<open>Cleaning\<close>

lemma dropWhile_rev_trim:
  "dropWhile isWhiteSpace (rev (dropWhile isWhiteSpace (rev (dropWhile isWhiteSpace s))))
     = rev (dropWhile isWhiteSpace (rev (dropWhile isWhiteSpace s)))"
proof -
  define a where "a = dropWhile isWhiteSpace s"
  define b where "b = dropWhile isWhiteSpace (rev a)"
  have "dropWhile isWhiteSpace (rev b) = rev b"
  proof (cases "b = []")
    case True
    then show ?thesis by simp
  next
    case False
    have "rev a = takeWhile isWhiteSpace (rev a) @ b"
      by (simp add: b_def)
    then have split: "a = rev b @ rev (takeWhile isWhiteSpace (rev a))"
      by (metis rev_append rev_rev_ident)
    from False have "a \<noteq> []" by (auto simp: b_def)
    then have "\<not> isWhiteSpace (hd a)"
      unfolding a_def by (rule hd_dropWhile)
    moreover have "hd a = hd (rev b)"
      using split False by (metis hd_append2 rev_is_Nil_conv)
    ultimately have "\<not> isWhiteSpace (hd (rev b))" by simp
    then show ?thesis
      by (cases "rev b") simp_all
  qed
  then show ?thesis unfolding b_def a_def .
qed

lemma trim_trim: "trim (trim s) = trim s"
  by (simp add: trim_def dropWhile_rev_trim)

lemma length_trim_le: "length (trim s) \<le> length s"
proof -
  have "length (dropWhile isWhiteSpace (rev (dropWhile isWhiteSpace s)))
          \<le> length (rev (dropWhile isWhiteSpace s))"
    by (rule length_dropWhile_le)
  also have "\<dots> \<le> length s"
    by (simp add: length_dropWhile_le)
  finally show ?thesis by (simp add: trim_def)
qed

lemma afterDashes_shorter: "afterDashes s = Some rest \<Longrightarrow> length rest < length s"
  by (induction s) (auto split: if_splits)

lemma frontmatterMatch_shorter:
  assumes "frontmatterMatch s = Some rest"
  shows "length rest < length s"
proof -
  from assms obtain r where r: "afterDashes (drop 3 s) = Some r"
    and rest: "rest = dropWhile (\<lambda>c. c = NL) r"
    by (auto simp: frontmatterMatch_def split: if_splits)
  have "length rest \<le> length r"
    by (simp add: rest length_dropWhile_le)
  also have "\<dots> < length (drop 3 s)"
    using r by (rule afterDashes_shorter)
  finally show ?thesis by simp
qed

text \<open>
  C5. Cleaning a cleaned document again changes nothing exactly when the cleaned document
  has no metadata block of its own, that is, when the frontmatter expression does not
  match it. (Where it does match, the second pass removes that block too, so the claim does
  not hold for every content.)
\<close>

theorem cleanMdxContent_twice:
  "cleanMdxContent (cleanMdxContent c) = cleanMdxContent c
     \<longleftrightarrow> frontmatterMatch (cleanMdxContent c) = None"
proof (cases "frontmatterMatch (cleanMdxContent c)")
  case None
  have "trim (cleanMdxContent c) = cleanMdxContent c"
    by (simp add: cleanMdxContent_def trim_trim)
  with None show ?thesis
    by (simp add: cleanMdxContent_def [of "cleanMdxContent c"])
next
  case (Some rest)
  then have "cleanMdxContent (cleanMdxContent c) = trim rest"
    by (simp add: cleanMdxContent_def [of "cleanMdxContent c"])
  moreover have "length (trim rest) < length (cleanMdxContent c)"
    using length_trim_le [of rest] frontmatterMatch_shorter [OF Some] by simp
  ultimately have "cleanMdxContent (cleanMdxContent c) \<noteq> cleanMdxContent c"
    by auto
  with Some show ?thesis by simp
qed

lemmas clean_eval = cleanMdxContent_def frontmatterMatch_def startsWith_def trim_def isWhiteSpace_def

theorem cleanMdxContent_twice_witness:
  "frontmatterMatch (cleanMdxContent (''---'' @ [NL] @ ''title: Tools'' @ [NL] @ ''---'' @ [NL, NL] @ ''Body text.'' @ [NL])) = None
   \<and> cleanMdxContent (cleanMdxContent (''---'' @ [NL] @ ''title: Tools'' @ [NL] @ ''---'' @ [NL, NL] @ ''Body text.'' @ [NL]))
     = ''Body text.''"
  using cleanMdxContent_twice [of "''---'' @ [NL] @ ''title: Tools'' @ [NL] @ ''---'' @ [NL, NL] @ ''Body text.'' @ [NL]"]
  by (simp add: clean_eval)

text \<open>
  A document whose body opens with a horizontal rule after the frontmatter: the first pass
  leaves a text that starts with three dashes and has three more further down, and the
  second pass takes everything up to them away.
\<close>

theorem cleanMdxContent_not_idempotent:
  "cleanMdxContent (''---'' @ [NL] @ ''title: Tools'' @ [NL] @ ''---'' @ [NL, NL] @ ''---'' @ [NL, NL] @ ''Intro'' @ [NL, NL] @ ''---'' @ [NL, NL] @ ''More'')
     = ''---'' @ [NL, NL] @ ''Intro'' @ [NL, NL] @ ''---'' @ [NL, NL] @ ''More''
   \<and> cleanMdxContent (cleanMdxContent (''---'' @ [NL] @ ''title: Tools'' @ [NL] @ ''---'' @ [NL, NL] @ ''---'' @ [NL, NL] @ ''Intro'' @ [NL, NL] @ ''---'' @ [NL, NL] @ ''More''))
     = ''More''"
  by (simp add: clean_eval)

section \<open>The loop over the pages and the run\<close>

lemma afterDashes_closing:
  "afterDashes (meta @ ''---'') = Some [] \<Longrightarrow> afterDashes (meta @ ''---'' @ rest) = Some rest"
proof (induction meta)
  case Nil
  then show ?case by (simp add: startsWith_def)
next
  case (Cons c meta)
  have long: "3 \<le> length (meta @ ''---'')" by simp
  show ?case
  proof (cases "startsWith (c # meta @ ''---'') ''---''")
    case True
    with Cons.prems have "drop 3 (c # meta @ ''---'') = []" by simp
    then have "length (c # meta @ ''---'') \<le> 3" by (simp only: drop_eq_Nil)
    then show ?thesis by simp
  next
    case False
    then have "\<not> startsWith (c # meta @ ''---'' @ rest) ''---''"
      by (cases meta; cases "tl meta") (auto simp: startsWith_def)
    moreover from False Cons.prems have "afterDashes (meta @ ''---'') = Some []" by simp
    ultimately show ?thesis using Cons.IH by simp
  qed
qed

lemma dropWhile_NL_whitespace:
  "dropWhile isWhiteSpace (dropWhile (\<lambda>c. c = NL) s) = dropWhile isWhiteSpace s"
  by (induction s) (auto simp: isWhiteSpace_def)

lemma trim_dropWhile_NL: "trim (dropWhile (\<lambda>c. c = NL) s) = trim s"
  by (simp add: trim_def dropWhile_NL_whitespace)

lemma cleanMdxContent_frontmatter:
  assumes "afterDashes (meta @ ''---'') = Some []"
  shows "cleanMdxContent (''---'' @ meta @ ''---'' @ rest) = trim rest"
proof -
  have "frontmatterMatch (''---'' @ meta @ ''---'' @ rest)
          = Some (dropWhile (\<lambda>c. c = NL) rest)"
    using afterDashes_closing [OF assms, of rest]
    by (simp add: frontmatterMatch_def startsWith_def)
  then show ?thesis
    by (simp add: cleanMdxContent_def trim_dropWhile_NL)
qed

lemma processPage_content:
  "concatenatedContent (processPage w v st p)
     = concatenatedContent st @ (case sectionOf w v p of None \<Rightarrow> [] | Some s \<Rightarrow> [s])"
  by (simp add: processPage_def sectionOf_def Let_def split: option.splits prod.splits)

lemma processPages_content:
  "concatenatedContent (processPages w v ps st)
     = concatenatedContent st @ List.map_filter (sectionOf w v) ps"
  by (induction ps arbitrary: st)
     (simp_all add: processPage_content List.map_filter_simps split: option.splits)

lemma processPage_count:
  "processedCount (processPage w v st p)
     = processedCount st + (case sectionOf w v p of None \<Rightarrow> 0 | Some s \<Rightarrow> 1)"
  by (simp add: processPage_def sectionOf_def Let_def split: option.splits prod.splits)

lemma processPages_count:
  "processedCount (processPages w v ps st)
     = processedCount st + length (List.map_filter (sectionOf w v) ps)"
  by (induction ps arbitrary: st)
     (simp_all add: processPage_count List.map_filter_simps split: option.splits)

lemma processPage_console_mono:
  "set (console st) \<subseteq> set (console (processPage w v st p))"
  by (auto simp: processPage_def Let_def split: option.splits prod.splits)

lemma processPages_console_mono:
  "set (console st) \<subseteq> set (console (processPages w v ps st))"
proof (induction ps arbitrary: st)
  case Nil
  show ?case by simp
next
  case (Cons p ps)
  have "set (console st) \<subseteq> set (console (processPage w v st p))"
    by (rule processPage_console_mono)
  also have "\<dots> \<subseteq> set (console (processPages w v ps (processPage w v st p)))"
    by (rule Cons.IH)
  finally show ?case by simp
qed

lemma processPages_warns:
  assumes "p \<in> set ps" and "readFirst w (possiblePaths p) = None"
  shows "ConsoleWarn (CouldNotFindFile p) \<in> set (console (processPages w v ps st))"
  using assms(1)
proof (induction ps arbitrary: st)
  case Nil
  then show ?case by simp
next
  case (Cons q ps)
  show ?case
  proof (cases "q = p")
    case True
    have "ConsoleWarn (CouldNotFindFile p) \<in> set (console (processPage w v st p))"
      using assms(2) by (simp add: processPage_def)
    then show ?thesis
      using processPages_console_mono [of "processPage w v st p" w v ps] True by auto
  next
    case False
    with Cons.prems have "p \<in> set ps" by simp
    then show ?thesis using Cons.IH by simp
  qed
qed

lemma primaryArtifact_concatenateConfig:
  assumes "findLatestSpecVersion docsConfig = Inr v"
    and "getLatestSpecNavigation docsConfig = Inr nav"
    and "writeFile w ''./mcp-spec.txt''"
  shows "primaryArtifact (concatenateConfig docsConfig w includeFull)
           = Some (joinWith separator (List.map_filter (sectionOf w v) (extractPagePaths nav [])))"
  using assms
  by (simp add: concatenateConfig_def primaryArtifact_def abort_def Let_def
        processPages_content split: prod.splits)

lemma exitCode_concatenateConfig:
  "exitCode (concatenateConfig docsConfig w includeFull) =
     (if (\<exists>v. findLatestSpecVersion docsConfig = Inr v)
         \<and> (\<exists>nav. getLatestSpecNavigation docsConfig = Inr nav)
         \<and> writeFile w ''./mcp-spec.txt''
         \<and> (includeFull \<longrightarrow> writeFile w ''./mcp-spec-full.txt'')
      then 0 else 1)"
  by (simp add: concatenateConfig_def abort_def Let_def split: sum.splits prod.splits)

lemma printed_concatenateConfig:
  assumes "findLatestSpecVersion docsConfig = Inr v"
    and "getLatestSpecNavigation docsConfig = Inr nav"
  shows "set (console (processPages w v (extractPagePaths nav []) (start v nav)))
           \<subseteq> set (printed (concatenateConfig docsConfig w includeFull))"
  using assms
  by (auto simp: concatenateConfig_def abort_def start_def Let_def split: prod.splits)

lemma sectionOf_mdx:
  assumes "readFile w (p @ ''.mdx'') = Content content"
    and "content \<noteq> []" and "cleanMdxContent content \<noteq> []"
  shows "sectionOf w v p = Some (pageSection v p (cleanMdxContent content))"
  using assms by (simp add: sectionOf_def possiblePaths_def)

lemma toLowerCase_Specification: "toLowerCase ''Specification'' = ''specification''"
  by code_simp

lemmas config_eval =
  findLatestSpecVersion_def getLatestSpecNavigation_def findSpecTab_def toLowerCase_Specification
  isMarked_def startsWith_def dateAt_def isDigit_def

lemma latestConfig_version: "findLatestSpecVersion (latestConfig ps) = Inr ''2025-06-18''"
  by (simp add: latestConfig_def specConfig_def config_eval)

lemma latestConfig_navigation: "getLatestSpecNavigation (latestConfig ps) = Inr ps"
  by (simp add: latestConfig_def specConfig_def config_eval)

text \<open>
  C2. The end-to-end example, for the configuration with one tab \<^verbatim>\<open>Specification\<close> and
  one group \<^verbatim>\<open>2025-06-18 (Latest)\<close> of two page references: when the two logical
  paths the flattener gives, with \<^verbatim>\<open>.mdx\<close> appended, hold documents that consist of a
  frontmatter block (three dashes, metadata whose first run of three dashes is the closing
  one) and any text after it that is not white space only, and the output can be written,
  the primary artifact is the two sections joined by the separator; the body of each is
  the text after its frontmatter block without the white space around it (blank lines
  after the block and a final line feed are allowed), and the title of each is its
  logical path without the first \<^verbatim>\<open>specification/2025-06-18/\<close>.
\<close>

theorem two_page_artifact:
  assumes file1: "readFile w (fullPath [] r1 @ ''.mdx'') = Content (''---'' @ meta1 @ ''---'' @ rest1)"
    and file2: "readFile w (fullPath [] r2 @ ''.mdx'') = Content (''---'' @ meta2 @ ''---'' @ rest2)"
    and meta: "afterDashes (meta1 @ ''---'') = Some []" "afterDashes (meta2 @ ''---'') = Some []"
    and bodies: "trim rest1 \<noteq> []" "trim rest2 \<noteq> []"
    and wr: "writeFile w ''./mcp-spec.txt''"
  shows "primaryArtifact (concatenateConfig (latestConfig [Page r1, Page r2]) w includeFull)
           = Some (''# '' @ replaceFirst (fullPath [] r1) ''specification/2025-06-18/''
                   @ [NL, NL] @ trim rest1 @ [NL, NL] @ ''---'' @ [NL, NL]
                   @ ''# '' @ replaceFirst (fullPath [] r2) ''specification/2025-06-18/''
                   @ [NL, NL] @ trim rest2)"
proof -
  have c1: "cleanMdxContent (''---'' @ meta1 @ ''---'' @ rest1) = trim rest1"
    by (rule cleanMdxContent_frontmatter [OF meta(1)])
  have c2: "cleanMdxContent (''---'' @ meta2 @ ''---'' @ rest2) = trim rest2"
    by (rule cleanMdxContent_frontmatter [OF meta(2)])
  have s1: "sectionOf w ''2025-06-18'' (fullPath [] r1)
              = Some (pageSection ''2025-06-18'' (fullPath [] r1) (trim rest1))"
    using sectionOf_mdx [OF file1] c1 bodies(1) by simp
  have s2: "sectionOf w ''2025-06-18'' (fullPath [] r2)
              = Some (pageSection ''2025-06-18'' (fullPath [] r2) (trim rest2))"
    using sectionOf_mdx [OF file2] c2 bodies(2) by simp
  have "primaryArtifact (concatenateConfig (latestConfig [Page r1, Page r2]) w includeFull)
          = Some (joinWith separator
                    (List.map_filter (sectionOf w ''2025-06-18'')
                       (extractPagePaths [Page r1, Page r2] [])))"
    by (rule primaryArtifact_concatenateConfig
          [OF latestConfig_version latestConfig_navigation wr])
  then show ?thesis
    by (simp add: s1 s2 pageSection_def separator_def)
qed

lemmas path_eval = fullPath_def startsWith_def path_join_def path_normalize_def

text \<open>
  With the references \<^verbatim>\<open>specification/2025-06-18/basic/lifecycle\<close> and
  \<^verbatim>\<open>specification/2025-06-18/server/tools\<close> the titles are \<^verbatim>\<open>../docs/basic/lifecycle\<close>
  and \<^verbatim>\<open>../docs/server/tools\<close>. Each document here has blank lines after its
  frontmatter block and ends with a line feed.
\<close>

theorem two_page_artifact_witness:
  "primaryArtifact
     (concatenateConfig
        (latestConfig [Page ''specification/2025-06-18/basic/lifecycle'',
                       Page ''specification/2025-06-18/server/tools''])
        (twoFiles ''../docs/specification/2025-06-18/basic/lifecycle.mdx''
                  ''../docs/specification/2025-06-18/server/tools.mdx'')
        False)
     = Some (''# ../docs/basic/lifecycle'' @ [NL, NL] @ ''Lifecycle body.''
             @ [NL, NL] @ ''---'' @ [NL, NL]
             @ ''# ../docs/server/tools'' @ [NL, NL] @ ''Tools body.'')"
  using two_page_artifact
    [where w = "twoFiles ''../docs/specification/2025-06-18/basic/lifecycle.mdx''
                  ''../docs/specification/2025-06-18/server/tools.mdx''"
       and ?r1.0 = "''specification/2025-06-18/basic/lifecycle''"
       and ?meta1.0 = "[NL] @ ''title: Lifecycle'' @ [NL]"
       and ?rest1.0 = "[NL, NL] @ ''Lifecycle body.'' @ [NL]"
       and ?r2.0 = "''specification/2025-06-18/server/tools''"
       and ?meta2.0 = "[NL] @ ''title: Tools'' @ [NL]"
       and ?rest2.0 = "[NL, NL] @ ''Tools body.'' @ [NL]"
       and includeFull = False]
  by (simp add: twoFiles_def onDisk_def document_def path_eval trim_def isWhiteSpace_def)

text \<open>
  The example as the specification has it, with the references \<^verbatim>\<open>/basic/lifecycle\<close> and
  \<^verbatim>\<open>/server/tools\<close>. With the documents under \<^verbatim>\<open>../docs/specification/\<close> no page is
  found and the artifact is empty; with the documents where the script looks for them, the
  titles are the whole logical paths.
\<close>

theorem root_marked_example_fails:
  "primaryArtifact
     (concatenateConfig (latestConfig [Page ''/basic/lifecycle'', Page ''/server/tools''])
        (twoFiles ''../docs/specification/basic/lifecycle.mdx''
                  ''../docs/specification/server/tools.mdx'') False)
     = Some []
   \<and> primaryArtifact
     (concatenateConfig (latestConfig [Page ''/basic/lifecycle'', Page ''/server/tools''])
        (twoFiles ''../docs/specification/basic/lifecycle.mdx''
                  ''../docs/specification/server/tools.mdx'') False)
     \<noteq> Some (''# basic/lifecycle'' @ [NL, NL] @ ''Lifecycle body.''
             @ [NL, NL] @ ''---'' @ [NL, NL]
             @ ''# server/tools'' @ [NL, NL] @ ''Tools body.'')
   \<and> primaryArtifact
     (concatenateConfig (latestConfig [Page ''/basic/lifecycle'', Page ''/server/tools''])
        (twoFiles ''../docs/specificationbasic/lifecycle.mdx''
                  ''../docs/specificationserver/tools.mdx'') False)
     = Some (''# ../docs/specificationbasic/lifecycle'' @ [NL, NL] @ ''Lifecycle body.''
             @ [NL, NL] @ ''---'' @ [NL, NL]
             @ ''# ../docs/specificationserver/tools'' @ [NL, NL] @ ''Tools body.'')"
  by (simp add: primaryArtifact_concatenateConfig [OF latestConfig_version latestConfig_navigation]
        twoFiles_def onDisk_def document_def path_eval sectionOf_def possiblePaths_def
        clean_eval pageSection_def separator_def)

section \<open>The two selections\<close>

text \<open>
  Where no group is marked, \<^const>\<open>findLatestSpecVersion\<close> returns the greatest date of the
  labels that have one, and \<^const>\<open>getLatestSpecNavigation\<close> fails.
\<close>

lemma sorted_le_last: "sorted xs \<Longrightarrow> y \<in> set xs \<Longrightarrow> y \<le> last xs"
  by (induction xs) (auto simp: last_in_set)

lemma greatest_first:
  assumes "dates \<noteq> []"
  shows "\<exists>rest. rev (sort dates) = Max (set dates) # rest"
proof -
  have ne: "sort dates \<noteq> []" using assms by (metis length_sort length_0_conv)
  have "last (sort dates) = Max (set dates)"
  proof (rule sym, rule Max_eqI)
    show "finite (set dates)" by simp
    show "y \<le> last (sort dates)" if "y \<in> set dates" for y
      using that by (simp add: sorted_le_last)
    show "last (sort dates) \<in> set dates"
      using last_in_set [OF ne] by simp
  qed
  then have "hd (rev (sort dates)) = Max (set dates)"
    by (simp add: hd_rev ne)
  moreover have "rev (sort dates) \<noteq> []" using ne by simp
  ultimately show ?thesis by (metis list.collapse)
qed

lemma findLatestSpecVersion_fallback:
  assumes "findSpecTab docsConfig = Some specTab"
    and "markedDate (groups specTab) = None"
    and "List.map_filter (\<lambda>g. matchDate (group g)) (groups specTab) \<noteq> []"
  shows "findLatestSpecVersion docsConfig
           = Inr (Max (set (List.map_filter (\<lambda>g. matchDate (group g)) (groups specTab))))"
proof -
  obtain rest where
    "rev (sort (List.map_filter (\<lambda>g. matchDate (group g)) (groups specTab)))
       = Max (set (List.map_filter (\<lambda>g. matchDate (group g)) (groups specTab))) # rest"
    using greatest_first [OF assms(3)] by blast
  then show ?thesis
    using assms(1,2) by (simp add: findLatestSpecVersion_def)
qed

lemma markedDate_unmarked: "list_all (\<lambda>g. \<not> isMarked g) gs \<Longrightarrow> markedDate gs = None"
  by (induction gs) simp_all

lemma find_unmarked: "list_all (\<lambda>g. \<not> isMarked g) gs \<Longrightarrow> find isMarked gs = None"
  by (induction gs) simp_all

lemma getLatestSpecNavigation_unmarked:
  assumes "findSpecTab docsConfig = Some specTab"
    and "list_all (\<lambda>g. \<not> isMarked g) (groups specTab)"
  shows "getLatestSpecNavigation docsConfig = Inl LatestGroupNotFound"
  using assms by (simp add: getLatestSpecNavigation_def find_unmarked)

text \<open>
  C3. The version and the page tree of a run should come from one and the same group.
  The script selects them with two functions that do not follow the same rule:
  \<^const>\<open>findLatestSpecVersion\<close> skips a marked group whose label has no date and falls
  back to the greatest date, \<^const>\<open>getLatestSpecNavigation\<close> takes the first marked group
  whatever its label and has no fall-back. With a group \<^verbatim>\<open>Latest draft\<close> before a group
  \<^verbatim>\<open>2025-06-18\<close> the version is that of the second group and the pages are those of the
  first.
\<close>

theorem version_and_pages_from_different_groups:
  "findLatestSpecVersion draftFirstConfig = Inr ''2025-06-18''
   \<and> getLatestSpecNavigation draftFirstConfig = Inr [Page ''specification/draft/index'']
   \<and> take 1 (printed (concatenateConfig draftFirstConfig
         (onDisk [(''../docs/specification/draft/index.mdx'', Content ''Draft text''),
                  (''../docs/specification/2025-06-18/index.mdx'', Content ''Released text'')])
         False))
     = [ConsoleLog (UsingVersion ''2025-06-18'')]
   \<and> written (concatenateConfig draftFirstConfig
         (onDisk [(''../docs/specification/draft/index.mdx'', Content ''Draft text''),
                  (''../docs/specification/2025-06-18/index.mdx'', Content ''Released text'')])
         False)
     = [(''./mcp-spec.txt'', ''# ../docs/specification/draft/index'' @ [NL, NL] @ ''Draft text'')]"
  by (simp add: draftFirstConfig_def specConfig_def config_eval concatenateConfig_def Let_def
        onDisk_def path_eval processPage_def possiblePaths_def clean_eval pageSection_def)

text \<open>
  C4. With dated groups and no marked one, the version should be the greatest date and the
  pages those of its group. The script finds the version, \<^verbatim>\<open>2025-06-18\<close>, and then fails
  to find the pages: the run ends with \<^verbatim>\<open>Latest specification group not found\<close> and
  status 1, nothing written.
\<close>

theorem date_fallback_without_pages:
  "findLatestSpecVersion datedConfig = Inr ''2025-06-18''
   \<and> getLatestSpecNavigation datedConfig = Inl LatestGroupNotFound
   \<and> concatenateConfig datedConfig
       (onDisk [(''../docs/specification/2025-06-18/index.mdx'', Content ''Released text'')]) False
     = \<lparr>exitCode = 1, printed = [ConsoleError (ErrorMessage LatestGroupNotFound)], written = []\<rparr>"
  by (simp add: datedConfig_def specConfig_def config_eval concatenateConfig_def abort_def)

section \<open>Candidates and read failures\<close>


lemma readFirst_find:
  "readFirst w cs =
     (case find (\<lambda>c. readable (readFile w c)) cs of
        None \<Rightarrow> None
      | Some c \<Rightarrow> Some (contentOf (readFile w c), c))"
  by (induction cs) (auto split: read_result.splits)

lemma readFirst_used:
  "readFirst w cs = Some (content, usedPath) \<Longrightarrow> usedPath \<in> set cs \<and> readFile w usedPath = Content content"
  by (induction cs) (auto split: read_result.splits)

lemma processPage_unresolved:
  "readFirst w (possiblePaths p) = None \<Longrightarrow>
   processPage w v st p = st\<lparr>console := console st @ [ConsoleWarn (CouldNotFindFile p)]\<rparr>"
  by (simp add: processPage_def)













text \<open>
  C8. The candidates of a logical path are the path with \<^verbatim>\<open>.mdx\<close>, the path with
  \<^verbatim>\<open>.md\<close> and the path itself, in this order, and the one used is the first that can be
  read. Which one is used depends only on which candidates can be read, not on what they
  contain. Where every candidate that exists can be read, it is the first candidate that
  exists. When none can be read the page is reported with a warning and the loop goes on.
\<close>

theorem first_readable_candidate:
  "possiblePaths p = [p @ ''.mdx'', p @ ''.md'', p]
   \<and> readFirst w (possiblePaths p) =
       (case find (\<lambda>c. readable (readFile w c)) (possiblePaths p) of
          None \<Rightarrow> None
        | Some c \<Rightarrow> Some (contentOf (readFile w c), c))
   \<and> ((\<forall>c. readable (readFile w' c) = readable (readFile w c)) \<longrightarrow>
        map_option snd (readFirst w' (possiblePaths p)) = map_option snd (readFirst w (possiblePaths p)))
   \<and> (list_all (\<lambda>c. fileExists w c = readable (readFile w c)) (possiblePaths p) \<longrightarrow>
        map_option snd (readFirst w (possiblePaths p)) = find (fileExists w) (possiblePaths p))
   \<and> (readFirst w (possiblePaths p) = None \<longrightarrow>
        processPage w v st p = st\<lparr>console := console st @ [ConsoleWarn (CouldNotFindFile p)]\<rparr>)"
proof -
  have same: "map_option snd (readFirst w' (possiblePaths p)) = map_option snd (readFirst w (possiblePaths p))"
    if "\<forall>c. readable (readFile w' c) = readable (readFile w c)"
    using that by (simp add: readFirst_find split: option.splits)
  have ex: "map_option snd (readFirst w (possiblePaths p)) = find (fileExists w) (possiblePaths p)"
    if "list_all (\<lambda>c. fileExists w c = readable (readFile w c)) (possiblePaths p)"
    using that by (simp add: readFirst_find possiblePaths_def split: option.splits)
  show ?thesis
    using same ex by (simp add: readFirst_find [symmetric] processPage_unresolved) (simp add: possiblePaths_def)
qed

theorem first_readable_candidate_witness:
  "readFirst (onDisk [(''../docs/guide'', Content ''Raw''), (''../docs/guide.md'', Content ''Text'')])
     (possiblePaths ''../docs/guide'') = Some (''Text'', ''../docs/guide.md'')
   \<and> find (fileExists (onDisk [(''../docs/guide'', Content ''Raw''), (''../docs/guide.md'', Content ''Text'')]))
       (possiblePaths ''../docs/guide'') = Some ''../docs/guide.md''"
  using first_readable_candidate
    [of "''../docs/guide''"
        "onDisk [(''../docs/guide'', Content ''Raw''), (''../docs/guide.md'', Content ''Text'')]"
        "onDisk [(''../docs/guide'', Content ''Raw''), (''../docs/guide.md'', Content ''Text'')]"]
  by (simp add: onDisk_def possiblePaths_def fileExists_def)

text \<open>
  The \<^verbatim>\<open>.mdx\<close> candidate exists and may not be read: the script goes on to the \<^verbatim>\<open>.md\<close>
  candidate and uses it, which is not the first candidate that exists.
\<close>

theorem existing_unreadable_candidate_passed_over:
  "fileExists (onDisk [(''../docs/guide.mdx'', Failure EACCES), (''../docs/guide.md'', Content ''Text'')])
     ''../docs/guide.mdx''
   \<and> readFirst (onDisk [(''../docs/guide.mdx'', Failure EACCES), (''../docs/guide.md'', Content ''Text'')])
       (possiblePaths ''../docs/guide'') = Some (''Text'', ''../docs/guide.md'')"
  by (simp add: onDisk_def possiblePaths_def fileExists_def)

text \<open>
  C10. When the first readable candidate of a page cleans to the empty string, the page
  adds no section and is not counted; and when the content read is not itself the empty
  string (the logical path is never empty), the turn of the loop changes nothing at all,
  the console included.
\<close>

theorem empty_clean_content_skipped:
  assumes "readFirst w (possiblePaths p) = Some (content, usedPath)"
    and "cleanMdxContent content = []"
  shows "concatenatedContent (processPage w v st p) = concatenatedContent st
    \<and> processedCount (processPage w v st p) = processedCount st
    \<and> (content \<noteq> [] \<and> p \<noteq> [] \<longrightarrow> processPage w v st p = st)"
proof -
  have "usedPath \<in> set (possiblePaths p)"
    using readFirst_used [OF assms(1)] by simp
  then have "p \<noteq> [] \<longrightarrow> usedPath \<noteq> []"
    by (auto simp: possiblePaths_def)
  then show ?thesis
    using assms by (auto simp: processPage_def)
qed

theorem empty_clean_content_skipped_witness:
  "processPage (onDisk [(''../docs/stub.mdx'', Content (document ''Stub'' []))])
     ''2025-06-18'' \<lparr>concatenatedContent = [], processedCount = 0, console = []\<rparr> ''../docs/stub''
   = \<lparr>concatenatedContent = [], processedCount = 0, console = []\<rparr>"
  using empty_clean_content_skipped
    [of "onDisk [(''../docs/stub.mdx'', Content (document ''Stub'' []))]" "''../docs/stub''"
        "document ''Stub'' []" "''../docs/stub.mdx''" "''2025-06-18''"
        "\<lparr>concatenatedContent = [], processedCount = 0, console = []\<rparr>"]
  by (simp add: onDisk_def possiblePaths_def document_def clean_eval)

text \<open>
  An empty file: it is read, it cleans to the empty string, and the run prints the warning
  \<^verbatim>\<open>Could not find file for\<close> the page, because the empty content is falsy.
\<close>

theorem empty_file_warned_as_missing:
  "readFirst (onDisk [(''../docs/empty.mdx'', Content [])]) (possiblePaths ''../docs/empty'')
     = Some ([], ''../docs/empty.mdx'')
   \<and> cleanMdxContent [] = []
   \<and> concatenateConfig (latestConfig [Page ''empty''])
       (onDisk [(''../docs/empty.mdx'', Content [])]) False
     = \<lparr>exitCode = 0,
        printed = [ConsoleLog (UsingVersion ''2025-06-18''), ConsoleLog (FoundNavigation 1),
          ConsoleLog (FoundPages 1), ConsoleWarn (CouldNotFindFile ''../docs/empty''),
          ConsoleLog (Concatenated 0), ConsoleLog (BasicWritten ''./mcp-spec.txt''),
          ConsoleLog (BasicSize 0)],
        written = [(''./mcp-spec.txt'', [])]\<rparr>"
  by (simp add: concatenateConfig_def latestConfig_version latestConfig_navigation Let_def
        onDisk_def path_eval processPage_def possiblePaths_def clean_eval)

section \<open>Missing pages and the exit status\<close>

lemma map_filter_removeAll:
  "f P = None \<Longrightarrow> List.map_filter f (removeAll P ps) = List.map_filter f ps"
  by (induction ps) (auto split: option.splits)

lemma sectionOf_unresolved: "readFirst w (possiblePaths p) = None \<Longrightarrow> sectionOf w v p = None"
  by (simp add: sectionOf_def)

lemma exitCode_concatenateSpec:
  "exitCode (concatenateSpec parseJSON w includeFull) = 0 \<longleftrightarrow>
     (\<exists>docsContent docsConfig v nav.
        readFile w ''../docs/docs.json'' = Content docsContent
        \<and> parseJSON docsContent = Some docsConfig
        \<and> findLatestSpecVersion docsConfig = Inr v
        \<and> getLatestSpecNavigation docsConfig = Inr nav
        \<and> writeFile w ''./mcp-spec.txt''
        \<and> (includeFull \<longrightarrow> writeFile w ''./mcp-spec-full.txt''))"
  by (auto simp: concatenateSpec_def exitCode_concatenateConfig abort_def Let_def
           split: read_result.splits option.splits)

lemma exitCode_binary:
  "exitCode (concatenateSpec parseJSON w includeFull) = 0
   \<or> exitCode (concatenateSpec parseJSON w includeFull) = 1"
  by (simp add: concatenateSpec_def exitCode_concatenateConfig abort_def Let_def
           split: read_result.splits option.splits)

text \<open>
  C9. When the configuration is read and parsed, a version and a page tree are selected
  and the output can be written, a page none of whose candidates can be read leaves a
  warning that names it, the run ends with status 0, and the primary artifact is made of
  the sections of the other pages, in their order. The status is 0 or 1, and it is 0
  exactly when the configuration is read and parsed, both selections succeed and every
  write succeeds: pages never change it.
\<close>

theorem missing_page_resilience:
  "(readFile w ''../docs/docs.json'' = Content docsContent
      \<and> parseJSON docsContent = Some docsConfig
      \<and> findLatestSpecVersion docsConfig = Inr v
      \<and> getLatestSpecNavigation docsConfig = Inr nav
      \<and> writeFile w ''./mcp-spec.txt''
      \<and> (includeFull \<longrightarrow> writeFile w ''./mcp-spec-full.txt'')
      \<and> P \<in> set (extractPagePaths nav [])
      \<and> readFirst w (possiblePaths P) = None
    \<longrightarrow> exitCode (concatenateSpec parseJSON w includeFull) = 0
        \<and> ConsoleWarn (CouldNotFindFile P) \<in> set (printed (concatenateSpec parseJSON w includeFull))
        \<and> primaryArtifact (concatenateSpec parseJSON w includeFull)
            = Some (joinWith separator
                      (List.map_filter (sectionOf w v) (removeAll P (extractPagePaths nav [])))))
   \<and> (exitCode (concatenateSpec parseJSON w includeFull) = 0
        \<or> exitCode (concatenateSpec parseJSON w includeFull) = 1)
   \<and> (exitCode (concatenateSpec parseJSON w includeFull) = 0 \<longleftrightarrow>
        (\<exists>docsContent docsConfig v nav.
           readFile w ''../docs/docs.json'' = Content docsContent
           \<and> parseJSON docsContent = Some docsConfig
           \<and> findLatestSpecVersion docsConfig = Inr v
           \<and> getLatestSpecNavigation docsConfig = Inr nav
           \<and> writeFile w ''./mcp-spec.txt''
           \<and> (includeFull \<longrightarrow> writeFile w ''./mcp-spec-full.txt'')))"
proof (intro conjI impI)
  assume h: "readFile w ''../docs/docs.json'' = Content docsContent
      \<and> parseJSON docsContent = Some docsConfig
      \<and> findLatestSpecVersion docsConfig = Inr v
      \<and> getLatestSpecNavigation docsConfig = Inr nav
      \<and> writeFile w ''./mcp-spec.txt''
      \<and> (includeFull \<longrightarrow> writeFile w ''./mcp-spec-full.txt'')
      \<and> P \<in> set (extractPagePaths nav [])
      \<and> readFirst w (possiblePaths P) = None"
  then have run: "concatenateSpec parseJSON w includeFull = concatenateConfig docsConfig w includeFull"
    by (simp add: concatenateSpec_def)
  from h show "exitCode (concatenateSpec parseJSON w includeFull) = 0"
    by (simp add: run exitCode_concatenateConfig)
  have "ConsoleWarn (CouldNotFindFile P)
          \<in> set (console (processPages w v (extractPagePaths nav []) (start v nav)))"
    using h by (simp add: processPages_warns)
  moreover have "set (console (processPages w v (extractPagePaths nav []) (start v nav)))
          \<subseteq> set (printed (concatenateConfig docsConfig w includeFull))"
    using h by (simp add: printed_concatenateConfig)
  ultimately show "ConsoleWarn (CouldNotFindFile P)
          \<in> set (printed (concatenateSpec parseJSON w includeFull))"
    unfolding run by (rule set_mp [rotated])
  have "sectionOf w v P = None"
    using h by (simp add: sectionOf_unresolved)
  then have "List.map_filter (sectionOf w v) (removeAll P (extractPagePaths nav []))
               = List.map_filter (sectionOf w v) (extractPagePaths nav [])"
    by (rule map_filter_removeAll)
  then show "primaryArtifact (concatenateSpec parseJSON w includeFull)
            = Some (joinWith separator
                      (List.map_filter (sectionOf w v) (removeAll P (extractPagePaths nav []))))"
    using h by (simp add: run primaryArtifact_concatenateConfig)
next
  show "exitCode (concatenateSpec parseJSON w includeFull) = 0
        \<or> exitCode (concatenateSpec parseJSON w includeFull) = 1"
    by (rule exitCode_binary)
next
  show "exitCode (concatenateSpec parseJSON w includeFull) = 0 \<longleftrightarrow>
        (\<exists>docsContent docsConfig v nav.
           readFile w ''../docs/docs.json'' = Content docsContent
           \<and> parseJSON docsContent = Some docsConfig
           \<and> findLatestSpecVersion docsConfig = Inr v
           \<and> getLatestSpecNavigation docsConfig = Inr nav
           \<and> writeFile w ''./mcp-spec.txt''
           \<and> (includeFull \<longrightarrow> writeFile w ''./mcp-spec-full.txt''))"
    by (rule exitCode_concatenateSpec)
qed


theorem missing_page_resilience_witness:
  "exitCode
     (concatenateSpec (parsesTo ''docs'' (latestConfig [Page ''a'', Page ''b'', Page ''c'']))
        (onDisk [(''../docs/docs.json'', Content ''docs''), (''../docs/a.mdx'', Content ''Alpha''),
                 (''../docs/c.md'', Content ''Gamma'')]) False) = 0
   \<and> ConsoleWarn (CouldNotFindFile ''../docs/b'')
     \<in> set (printed
         (concatenateSpec (parsesTo ''docs'' (latestConfig [Page ''a'', Page ''b'', Page ''c'']))
            (onDisk [(''../docs/docs.json'', Content ''docs''), (''../docs/a.mdx'', Content ''Alpha''),
                     (''../docs/c.md'', Content ''Gamma'')]) False))
   \<and> primaryArtifact
     (concatenateSpec (parsesTo ''docs'' (latestConfig [Page ''a'', Page ''b'', Page ''c'']))
        (onDisk [(''../docs/docs.json'', Content ''docs''), (''../docs/a.mdx'', Content ''Alpha''),
                 (''../docs/c.md'', Content ''Gamma'')]) False)
     = Some (''# ../docs/a'' @ [NL, NL] @ ''Alpha'' @ [NL, NL] @ ''---'' @ [NL, NL]
             @ ''# ../docs/c'' @ [NL, NL] @ ''Gamma'')"
  using missing_page_resilience
    [of "onDisk [(''../docs/docs.json'', Content ''docs''), (''../docs/a.mdx'', Content ''Alpha''),
                 (''../docs/c.md'', Content ''Gamma'')]"
        "''docs''" "parsesTo ''docs'' (latestConfig [Page ''a'', Page ''b'', Page ''c''])"
        "latestConfig [Page ''a'', Page ''b'', Page ''c'']" "''2025-06-18''"
        "[Page ''a'', Page ''b'', Page ''c'']" False "''../docs/b''"]
  by (simp add: latestConfig_version latestConfig_navigation parsesTo_def onDisk_def path_eval
        possiblePaths_def sectionOf_def clean_eval pageSection_def separator_def)

text \<open>
  The tab is there and the version is resolved, and the status is 1 all the same: when the
  output cannot be written, when \<^verbatim>\<open>docs.json\<close> does not parse, when it cannot be read.
\<close>

theorem nonzero_status_with_version_resolved:
  "findSpecTab (latestConfig [Page ''a''])
     = Some \<lparr>tab = ''Specification'', icon = None,
             groups = [\<lparr>group = ''2025-06-18 (Latest)'', pages = [Page ''a'']\<rparr>]\<rparr>
   \<and> findLatestSpecVersion (latestConfig [Page ''a'']) = Inr ''2025-06-18''
   \<and> getLatestSpecNavigation (latestConfig [Page ''a'']) = Inr [Page ''a'']
   \<and> exitCode
       (concatenateSpec (parsesTo ''docs'' (latestConfig [Page ''a'']))
          ((onDisk [(''../docs/docs.json'', Content ''docs''), (''../docs/a.mdx'', Content ''Alpha'')])
             \<lparr>writeFile := (\<lambda>p. False)\<rparr>) False) = 1
   \<and> exitCode
       (concatenateSpec (parsesTo ''docs'' (latestConfig [Page ''a'']))
          (onDisk [(''../docs/docs.json'', Content ''{''), (''../docs/a.mdx'', Content ''Alpha'')])
          False) = 1
   \<and> exitCode
       (concatenateSpec (parsesTo ''docs'' (latestConfig [Page ''a'']))
          (onDisk [(''../docs/docs.json'', Failure EACCES), (''../docs/a.mdx'', Content ''Alpha'')])
          False) = 1"
  by (simp add: latestConfig_version latestConfig_navigation)
     (simp add: concatenateSpec_def exitCode_concatenateConfig abort_def parsesTo_def onDisk_def
        latestConfig_def specConfig_def findSpecTab_def toLowerCase_Specification)

end
